theory Spec2Isabelle
  imports Main "HOL-Library.Sublist"
begin

section \<open>JavaScript values as the handlers see them\<close>

text \<open>
  The call handler receives the tool name and the argument object of a JSON request and
  passes the object on with \<^verbatim>\<open>args as any\<close>, so a field can hold any JSON value,
  whatever the TypeScript parameter type of the method says. A request may also come
  without an \<^verbatim>\<open>arguments\<close> member: \<^verbatim>\<open>args\<close> is then \<^verbatim>\<open>undefined\<close>, which is
  \<^term>\<open>None\<close> below, and an argument object with its fields is \<^term>\<open>Some fs\<close>.

  A string is its list of code units. A number is represented by its canonical text
  (what \<^verbatim>\<open>String(n)\<close> gives): the methods only interpolate a number into a template or
  test its truth value, and both are determined by that text. An object is the list of
  its own properties in enumeration order (the order of \<^verbatim>\<open>Object.entries\<close>).
\<close>

datatype jsval =
    JUndefined
  | JNull
  | JBool bool
  | JNum string
  | JStr string
  | JArr "jsval list"
  | JObj "(string \<times> jsval) list"

type_synonym fields = "(string \<times> jsval) list"

text \<open>
  Every exception of the program is an instance of \<^verbatim>\<open>Error\<close>: the ones it throws itself,
  the rejection of \<^verbatim>\<open>execAsync\<close>, and the \<^verbatim>\<open>TypeError\<close>s of the engine.
\<close>

datatype js_error = Error string | TypeError string

fun message :: "js_error \<Rightarrow> string" where
  "message (Error m) = m"
| "message (TypeError m) = m"

definition andThen :: "js_error + 'a \<Rightarrow> ('a \<Rightarrow> js_error + 'b) \<Rightarrow> js_error + 'b" where
  "andThen r f = (case r of Inl e \<Rightarrow> Inl e | Inr x \<Rightarrow> f x)"

text \<open>\<^verbatim>\<open>args.k\<close>: the own property, or \<^verbatim>\<open>undefined\<close> (none of the names the methods read
  is inherited from \<^verbatim>\<open>Object.prototype\<close>).\<close>

definition get :: "fields \<Rightarrow> string \<Rightarrow> jsval" where
  "get args k = (case map_of args k of None \<Rightarrow> JUndefined | Some v \<Rightarrow> v)"

text \<open>The truth value of a value in \<^verbatim>\<open>if (v)\<close>, \<^verbatim>\<open>!v\<close>, \<^verbatim>\<open>v ? a : b\<close> and \<^verbatim>\<open>v || w\<close>.\<close>

fun truthy :: "jsval \<Rightarrow> bool" where
  "truthy JUndefined = False"
| "truthy JNull = False"
| "truthy (JBool b) = b"
| "truthy (JNum t) = (t \<noteq> ''0'' \<and> t \<noteq> ''NaN'')"
| "truthy (JStr s) = (s \<noteq> [])"
| "truthy (JArr xs) = True"
| "truthy (JObj kvs) = True"

fun collect :: "(js_error + 'a) list \<Rightarrow> js_error + 'a list" where
  "collect [] = Inr []"
| "collect (Inl e # rs) = Inl e"
| "collect (Inr x # rs) = (case collect rs of Inl e \<Rightarrow> Inl e | Inr xs \<Rightarrow> Inr (x # xs))"

fun join :: "string \<Rightarrow> string list \<Rightarrow> string" where
  "join sep [] = []"
| "join sep [x] = x"
| "join sep (x # y # zs) = x @ sep @ join sep (y # zs)"

text \<open>
  The string a template literal puts in place of \<^verbatim>\<open>${v}\<close>. An array is joined with commas,
  \<^verbatim>\<open>null\<close> and \<^verbatim>\<open>undefined\<close> elements giving the empty string. A plain object gives
  \<^verbatim>\<open>[object Object]\<close>, unless an own property hides \<^verbatim>\<open>toString\<close>: a JSON value is never
  callable, \<^verbatim>\<open>valueOf\<close> returns the object itself, and the conversion throws.
\<close>

fun ToString :: "jsval \<Rightarrow> js_error + string" where
  "ToString JUndefined = Inr ''undefined''"
| "ToString JNull = Inr ''null''"
| "ToString (JBool b) = Inr (if b then ''true'' else ''false'')"
| "ToString (JNum t) = Inr t"
| "ToString (JStr s) = Inr s"
| "ToString (JArr xs) =
     (case collect (map (\<lambda>v. if v = JUndefined \<or> v = JNull then Inr [] else ToString v) xs) of
        Inl e \<Rightarrow> Inl e
      | Inr ss \<Rightarrow> Inr (join '','' ss))"
| "ToString (JObj kvs) =
     (if ''toString'' \<in> set (map fst kvs)
      then Inl (TypeError ''Cannot convert object to primitive value'')
      else Inr ''[object Object]'')"

text \<open>A template literal: literal chunks and substitutions, evaluated from left to right.\<close>

datatype part = Lit string | Sub jsval

fun template :: "part list \<Rightarrow> js_error + string" where
  "template [] = Inr []"
| "template (Lit s # ps) = andThen (template ps) (\<lambda>r. Inr (s @ r))"
| "template (Sub v # ps) = andThen (ToString v) (\<lambda>s. andThen (template ps) (\<lambda>r. Inr (s @ r)))"

text \<open>\<^verbatim>\<open>if (c) cmd += piece\<close>, where evaluating the piece may throw.\<close>

definition appendIf :: "bool \<Rightarrow> string \<Rightarrow> js_error + string \<Rightarrow> js_error + string" where
  "appendIf c cmd piece = (if c then andThen piece (\<lambda>p. Inr (cmd @ p)) else Inr cmd)"

section \<open>The subprocess executor and the reply\<close>

text \<open>
  \<^verbatim>\<open>execAsync(cmd)\<close> resolves with the captured standard output and standard error, or
  rejects with an error. What the subprocess does is not the program's: the executor is a
  parameter. An operation returns the commands it handed to the executor, in order, and
  its reply or the exception it throws.
\<close>

type_synonym executor = "string \<Rightarrow> js_error + (string \<times> string)"

record content_block =
  type :: string
  "text" :: string

record call_result =
  content :: "content_block list"

definition textResult :: "string \<Rightarrow> call_result" where
  "textResult t = \<lparr>content = [\<lparr>type = ''text'', text = t\<rparr>]\<rparr>"

type_synonym outcome = "string list \<times> (js_error + call_result)"

text \<open>
  The shape every method has: build the command (this may throw), await
  \<^verbatim>\<open>execAsync(cmd)\<close> (this may reject), build the reply from the captured output.
\<close>

definition execThen ::
  "executor \<Rightarrow> js_error + string \<Rightarrow> (string \<times> string \<Rightarrow> js_error + call_result) \<Rightarrow> outcome" where
  "execThen run built reply =
     (case built of
        Inl e \<Rightarrow> ([], Inl e)
      | Inr cmd \<Rightarrow> ([cmd], case run cmd of Inl e \<Rightarrow> Inl e | Inr out \<Rightarrow> reply out))"

text \<open>
  On \<^verbatim>\<open>undefined\<close> the first \<^verbatim>\<open>args.k\<close> a method evaluates throws a \<^verbatim>\<open>TypeError\<close>, before
  anything is built or run. Once that read has passed, \<^verbatim>\<open>args\<close> is an object, and the
  rest of the method works on its fields.
\<close>

definition apostrophe :: string where
  "apostrophe = [CHR 0x27]"

definition undefinedRead :: "string \<Rightarrow> js_error" where
  "undefinedRead k =
     TypeError (''Cannot read properties of undefined (reading '' @ apostrophe @ k
                @ apostrophe @ '')'')"

definition withArgs :: "string \<Rightarrow> fields option \<Rightarrow> (fields \<Rightarrow> outcome) \<Rightarrow> outcome" where
  "withArgs k args body =
     (case args of None \<Rightarrow> ([], Inl (undefinedRead k)) | Some fs \<Rightarrow> body fs)"

section \<open>The server of \<^verbatim>\<open>src/index.ts\<close>\<close>

text \<open>
  Each method is split at its \<^verbatim>\<open>await execAsync(cmd)\<close>: \<open>f_cmd\<close> is the part before it,
  \<open>f_reply\<close> the part after it, both on the fields of the argument object; \<open>f\<close> itself
  names the field the method reads first. The definitions of this section carry the suffix
  \<open>_index\<close>; the longer version of the server follows under the methods' own names.
\<close>

definition splitWindow_cmd_index :: "fields \<Rightarrow> js_error + string" where
  \<open>splitWindow_cmd_index args =
     (let splitFlag = (if get args ''direction'' = JStr ''horizontal'' then ''-h'' else ''-v'');
          cmd = ''tmux split-window '' @ splitFlag
      in andThen
           (appendIf (truthy (get args ''directory'')) cmd
              (template [Lit '' -c "'', Sub (get args ''directory''), Lit ''"'']))
           (\<lambda>cmd. appendIf (truthy (get args ''command'')) cmd
              (template [Lit '' "'', Sub (get args ''command''), Lit ''"''])))\<close>

definition splitWindow_reply_index :: "fields \<Rightarrow> string \<times> string \<Rightarrow> js_error + call_result" where
  \<open>splitWindow_reply_index args out =
     andThen (ToString (get args ''direction''))
       (\<lambda>d. andThen
          (if truthy (get args ''command'')
           then template [Lit '' and ran: '', Sub (get args ''command'')]
           else Inr [])
          (\<lambda>t. Inr (textResult (''Split window '' @ d @ ''ly'' @ t))))\<close>

definition splitWindow_index :: "executor \<Rightarrow> fields option \<Rightarrow> outcome" where
  "splitWindow_index run args =
     withArgs ''direction'' args (\<lambda>fs. execThen run (splitWindow_cmd_index fs) (splitWindow_reply_index fs))"

definition newWindow_cmd_index :: "fields \<Rightarrow> js_error + string" where
  \<open>newWindow_cmd_index args =
     andThen
       (appendIf (truthy (get args ''name'')) ''tmux new-window''
          (template [Lit '' -n "'', Sub (get args ''name''), Lit ''"'']))
       (\<lambda>cmd. andThen
          (appendIf (truthy (get args ''directory'')) cmd
             (template [Lit '' -c "'', Sub (get args ''directory''), Lit ''"'']))
          (\<lambda>cmd. appendIf (truthy (get args ''command'')) cmd
             (template [Lit '' "'', Sub (get args ''command''), Lit ''"''])))\<close>

definition newWindow_reply_index :: "fields \<Rightarrow> string \<times> string \<Rightarrow> js_error + call_result" where
  \<open>newWindow_reply_index args out =
     andThen
       (if truthy (get args ''name'')
        then template [Lit '' '', Lit [CHR 0x27], Sub (get args ''name''), Lit [CHR 0x27]]
        else Inr [])
       (\<lambda>t. Inr (textResult (''Created new window'' @ t)))\<close>

definition newWindow_index :: "executor \<Rightarrow> fields option \<Rightarrow> outcome" where
  "newWindow_index run args =
     withArgs ''name'' args (\<lambda>fs. execThen run (newWindow_cmd_index fs) (newWindow_reply_index fs))"

definition listSessions_cmd_index :: string where
  \<open>listSessions_cmd_index = ''tmux list-sessions -F "#{session_name}: #{session_windows} windows"''\<close>

definition listSessions_index :: "executor \<Rightarrow> outcome" where
  \<open>listSessions_index run =
     execThen run (Inr listSessions_cmd_index)
       (\<lambda>(stdout, stderr). Inr (textResult (''Tmux sessions:\<newline>'' @ stdout)))\<close>

definition listWindows_cmd_index :: string where
  \<open>listWindows_cmd_index =
     ''tmux list-windows -F "#{window_index}: #{window_name} (#{window_panes} panes)"''\<close>

definition listWindows_index :: "executor \<Rightarrow> outcome" where
  \<open>listWindows_index run =
     execThen run (Inr listWindows_cmd_index)
       (\<lambda>(stdout, stderr). Inr (textResult (''Current session windows:\<newline>'' @ stdout)))\<close>

definition sendKeys_cmd_index :: "fields \<Rightarrow> js_error + string" where
  \<open>sendKeys_cmd_index args =
     andThen
       (appendIf (truthy (get args ''pane'')) ''tmux send-keys''
          (template [Lit '' -t "'', Sub (get args ''pane''), Lit ''"'']))
       (\<lambda>cmd. andThen (template [Lit '' "'', Sub (get args ''keys''), Lit ''"''])
          (\<lambda>k. Inr (if get args ''enter'' \<noteq> JBool False then cmd @ k @ '' Enter'' else cmd @ k)))\<close>

definition sendKeys_reply_index :: "fields \<Rightarrow> string \<times> string \<Rightarrow> js_error + call_result" where
  \<open>sendKeys_reply_index args out =
     andThen (ToString (get args ''keys''))
       (\<lambda>k. Inr (textResult (''Sent keys: '' @ k @
                 (if get args ''enter'' \<noteq> JBool False then '' (with Enter)'' else []))))\<close>

definition sendKeys_index :: "executor \<Rightarrow> fields option \<Rightarrow> outcome" where
  "sendKeys_index run args =
     withArgs ''pane'' args (\<lambda>fs. execThen run (sendKeys_cmd_index fs) (sendKeys_reply_index fs))"

definition openNvim_cmd_index :: "fields \<Rightarrow> js_error + string" where
  \<open>openNvim_cmd_index args =
     (let splitFlag = (if get args ''split'' = JStr ''vertical'' then ''-v'' else ''-h'');
          cmd = ''tmux split-window '' @ splitFlag
      in andThen
           (appendIf (truthy (get args ''directory'')) cmd
              (template [Lit '' -c "'', Sub (get args ''directory''), Lit ''"'']))
           (\<lambda>cmd. andThen
              (if truthy (get args ''file'')
               then template [Lit ''nvim "'', Sub (get args ''file''), Lit ''"'']
               else Inr ''nvim'')
              (\<lambda>nvimCmd. Inr (cmd @ '' "'' @ nvimCmd @ ''"''))))\<close>

definition openNvim_reply_index :: "fields \<Rightarrow> string \<times> string \<Rightarrow> js_error + call_result" where
  \<open>openNvim_reply_index args out =
     andThen
       (if truthy (get args ''file'')
        then template [Lit '' with file: '', Sub (get args ''file'')]
        else Inr [])
       (\<lambda>t. Inr (textResult (''Opened nvim'' @ t @ '' in new pane'')))\<close>

definition openNvim_index :: "executor \<Rightarrow> fields option \<Rightarrow> outcome" where
  "openNvim_index run args =
     withArgs ''split'' args (\<lambda>fs. execThen run (openNvim_cmd_index fs) (openNvim_reply_index fs))"

subsection \<open>The dispatcher\<close>

text \<open>
  The \<^verbatim>\<open>try\<close>/\<^verbatim>\<open>catch\<close> around the \<^verbatim>\<open>switch\<close>: whatever is thrown inside becomes a normal
  reply with one text block. The handler's own result is still a sum, so that "nothing is
  thrown past the handler" is a statement about it.
\<close>

definition catchError :: "outcome \<Rightarrow> outcome" where
  "catchError oc =
     (case oc of
        (cmds, Inr res) \<Rightarrow> (cmds, Inr res)
      | (cmds, Inl e) \<Rightarrow> (cmds, Inr (textResult (''Error: '' @ message e))))"

definition declaredTools_index :: "string list" where
  "declaredTools_index =
     [''tmux_split_window'', ''tmux_new_window'', ''tmux_list_sessions'',
      ''tmux_list_windows'', ''tmux_send_keys'', ''tmux_open_nvim'']"

definition callTool_index :: "executor \<Rightarrow> string \<Rightarrow> fields option \<Rightarrow> outcome" where
  "callTool_index run name args =
     catchError
       (if name = ''tmux_split_window'' then splitWindow_index run args
        else if name = ''tmux_new_window'' then newWindow_index run args
        else if name = ''tmux_list_sessions'' then listSessions_index run
        else if name = ''tmux_list_windows'' then listWindows_index run
        else if name = ''tmux_send_keys'' then sendKeys_index run args
        else if name = ''tmux_open_nvim'' then openNvim_index run args
        else ([], Inl (Error (''Unknown tool: '' @ name))))"

section \<open>The longer version of the server\<close>

subsection \<open>The six operations it has in common with \<^verbatim>\<open>src/index.ts\<close>\<close>

definition splitWindow_cmd :: "fields \<Rightarrow> js_error + string" where
  \<open>splitWindow_cmd args =
     (let splitFlag = (if get args ''direction'' = JStr ''horizontal'' then ''-h'' else ''-v'');
          cmd = ''tmux split-window '' @ splitFlag
      in andThen
           (appendIf (truthy (get args ''directory'')) cmd
              (template [Lit '' -c "'', Sub (get args ''directory''), Lit ''"'']))
           (\<lambda>cmd. appendIf (truthy (get args ''command'')) cmd
              (template [Lit '' "'', Sub (get args ''command''), Lit ''"''])))\<close>

definition splitWindow_reply :: "fields \<Rightarrow> string \<times> string \<Rightarrow> js_error + call_result" where
  \<open>splitWindow_reply args out =
     andThen (ToString (get args ''direction''))
       (\<lambda>d. andThen
          (if truthy (get args ''command'')
           then template [Lit '' and ran: '', Sub (get args ''command'')]
           else Inr [])
          (\<lambda>t. Inr (textResult (''Split window '' @ d @ ''ly'' @ t))))\<close>

definition splitWindow :: "executor \<Rightarrow> fields option \<Rightarrow> outcome" where
  "splitWindow run args =
     withArgs ''direction'' args (\<lambda>fs. execThen run (splitWindow_cmd fs) (splitWindow_reply fs))"

definition newWindow_cmd :: "fields \<Rightarrow> js_error + string" where
  \<open>newWindow_cmd args =
     andThen
       (appendIf (truthy (get args ''name'')) ''tmux new-window''
          (template [Lit '' -n "'', Sub (get args ''name''), Lit ''"'']))
       (\<lambda>cmd. andThen
          (appendIf (truthy (get args ''directory'')) cmd
             (template [Lit '' -c "'', Sub (get args ''directory''), Lit ''"'']))
          (\<lambda>cmd. appendIf (truthy (get args ''command'')) cmd
             (template [Lit '' "'', Sub (get args ''command''), Lit ''"''])))\<close>

definition newWindow_reply :: "fields \<Rightarrow> string \<times> string \<Rightarrow> js_error + call_result" where
  \<open>newWindow_reply args out =
     andThen
       (if truthy (get args ''name'')
        then template [Lit '' '', Lit [CHR 0x27], Sub (get args ''name''), Lit [CHR 0x27]]
        else Inr [])
       (\<lambda>t. Inr (textResult (''Created new window'' @ t)))\<close>

definition newWindow :: "executor \<Rightarrow> fields option \<Rightarrow> outcome" where
  "newWindow run args =
     withArgs ''name'' args (\<lambda>fs. execThen run (newWindow_cmd fs) (newWindow_reply fs))"

definition listSessions_cmd :: string where
  \<open>listSessions_cmd = ''tmux list-sessions -F "#{session_name}: #{session_windows} windows"''\<close>

definition listSessions :: "executor \<Rightarrow> outcome" where
  \<open>listSessions run =
     execThen run (Inr listSessions_cmd)
       (\<lambda>(stdout, stderr). Inr (textResult (''Tmux sessions:\<newline>'' @ stdout)))\<close>

definition listWindows_cmd :: string where
  \<open>listWindows_cmd =
     ''tmux list-windows -F "#{window_index}: #{window_name} (#{window_panes} panes)"''\<close>

definition listWindows :: "executor \<Rightarrow> outcome" where
  \<open>listWindows run =
     execThen run (Inr listWindows_cmd)
       (\<lambda>(stdout, stderr). Inr (textResult (''Current session windows:\<newline>'' @ stdout)))\<close>

definition sendKeys_cmd :: "fields \<Rightarrow> js_error + string" where
  \<open>sendKeys_cmd args =
     andThen
       (appendIf (truthy (get args ''pane'')) ''tmux send-keys''
          (template [Lit '' -t "'', Sub (get args ''pane''), Lit ''"'']))
       (\<lambda>cmd. andThen (template [Lit '' "'', Sub (get args ''keys''), Lit ''"''])
          (\<lambda>k. Inr (if get args ''enter'' \<noteq> JBool False then cmd @ k @ '' Enter'' else cmd @ k)))\<close>

definition sendKeys_reply :: "fields \<Rightarrow> string \<times> string \<Rightarrow> js_error + call_result" where
  \<open>sendKeys_reply args out =
     andThen (ToString (get args ''keys''))
       (\<lambda>k. Inr (textResult (''Sent keys: '' @ k @
                 (if get args ''enter'' \<noteq> JBool False then '' (with Enter)'' else []))))\<close>

definition sendKeys :: "executor \<Rightarrow> fields option \<Rightarrow> outcome" where
  "sendKeys run args =
     withArgs ''pane'' args (\<lambda>fs. execThen run (sendKeys_cmd fs) (sendKeys_reply fs))"

definition openNvim_cmd :: "fields \<Rightarrow> js_error + string" where
  \<open>openNvim_cmd args =
     (let splitFlag = (if get args ''split'' = JStr ''vertical'' then ''-v'' else ''-h'');
          cmd = ''tmux split-window '' @ splitFlag
      in andThen
           (appendIf (truthy (get args ''directory'')) cmd
              (template [Lit '' -c "'', Sub (get args ''directory''), Lit ''"'']))
           (\<lambda>cmd. andThen
              (if truthy (get args ''file'')
               then template [Lit ''nvim "'', Sub (get args ''file''), Lit ''"'']
               else Inr ''nvim'')
              (\<lambda>nvimCmd. Inr (cmd @ '' "'' @ nvimCmd @ ''"''))))\<close>

definition openNvim_reply :: "fields \<Rightarrow> string \<times> string \<Rightarrow> js_error + call_result" where
  \<open>openNvim_reply args out =
     andThen
       (if truthy (get args ''file'')
        then template [Lit '' with file: '', Sub (get args ''file'')]
        else Inr [])
       (\<lambda>t. Inr (textResult (''Opened nvim'' @ t @ '' in new pane'')))\<close>

definition openNvim :: "executor \<Rightarrow> fields option \<Rightarrow> outcome" where
  "openNvim run args =
     withArgs ''split'' args (\<lambda>fs. execThen run (openNvim_cmd fs) (openNvim_reply fs))"

subsection \<open>The operations it adds\<close>

subsubsection \<open>The clock and \<^verbatim>\<open>toISOString\<close>\<close>

text \<open>
  \<^verbatim>\<open>new Date()\<close> is the current time, an input of the call; it is given by its UTC calendar
  fields. \<^verbatim>\<open>toISOString\<close> prints them with fixed widths, the year with four digits from
  0 to 9999 and with a sign and six digits otherwise.
\<close>

record date =
  year :: int
  month :: nat
  day :: nat
  hours :: nat
  minutes :: nat
  seconds :: nat
  milliseconds :: nat

definition digit :: "nat \<Rightarrow> char" where
  "digit n = ''0123456789'' ! (n mod 10)"

fun pad :: "nat \<Rightarrow> nat \<Rightarrow> string" where
  "pad 0 n = []"
| "pad (Suc w) n = pad w (n div 10) @ [digit n]"

definition toISOString :: "date \<Rightarrow> string" where
  "toISOString d =
     (if 0 \<le> year d \<and> year d \<le> 9999 then pad 4 (nat (year d))
      else (if year d < 0 then ''-'' else ''+'') @ pad 6 (nat \<bar>year d\<bar>))
     @ ''-'' @ pad 2 (month d) @ ''-'' @ pad 2 (day d)
     @ ''T'' @ pad 2 (hours d) @ '':'' @ pad 2 (minutes d) @ '':'' @ pad 2 (seconds d)
     @ ''.'' @ pad 3 (milliseconds d) @ ''Z''"

text \<open>\<^verbatim>\<open>s.replace('T', '_')\<close> replaces the first occurrence, \<^verbatim>\<open>s.replace(/:/g, '-')\<close> every one;
  \<^verbatim>\<open>s.slice(0, 19)\<close> is \<^term>\<open>take 19 s\<close>.\<close>

fun replaceFirst :: "char \<Rightarrow> string \<Rightarrow> string \<Rightarrow> string" where
  "replaceFirst a b [] = []"
| "replaceFirst a b (c # cs) = (if c = a then b @ cs else c # replaceFirst a b cs)"

definition replaceAll :: "char \<Rightarrow> string \<Rightarrow> string \<Rightarrow> string" where
  "replaceAll a b s = concat (map (\<lambda>c. if c = a then b else [c]) s)"

subsubsection \<open>\<^verbatim>\<open>openObsidianNote\<close>\<close>

definition obsidianBase :: string where
  "obsidianBase = ''/Users/ldraney/Library/Mobile Documents/iCloud~md~obsidian/Documents''"

text \<open>\<^verbatim>\<open>args.note_name || new Date().toISOString().slice(0, 19).replace('T', '_').replace(/:/g, '-') + '.md'\<close>:
  the sum binds tighter than \<^verbatim>\<open>||\<close>.\<close>

definition noteName :: "date \<Rightarrow> fields \<Rightarrow> jsval" where
  "noteName now args =
     (if truthy (get args ''note_name'') then get args ''note_name''
      else JStr (replaceAll CHR '':'' ''-''
                   (replaceFirst CHR ''T'' ''_'' (take 19 (toISOString now))) @ ''.md''))"

definition listVaults_cmd :: string where
  \<open>listVaults_cmd = ''ls "'' @ obsidianBase @ ''"''\<close>

definition openObsidianNote_cmd :: "date \<Rightarrow> fields \<Rightarrow> js_error + string" where
  \<open>openObsidianNote_cmd now args =
     andThen (template [Lit obsidianBase, Lit ''/'', Sub (get args ''vault'')])
       (\<lambda>vaultPath. andThen (template [Lit vaultPath, Lit ''/'', Sub (noteName now args)])
          (\<lambda>filePath.
             (let splitFlag = (if get args ''split'' = JStr ''vertical'' then ''-v'' else ''-h'')
              in Inr (''tmux split-window '' @ splitFlag @ '' -c "'' @ vaultPath
                      @ ''" "nvim '' @ apostrophe @ filePath @ apostrophe @ ''"''))))\<close>

definition openObsidianNote_reply ::
  "date \<Rightarrow> fields \<Rightarrow> string \<times> string \<Rightarrow> js_error + call_result" where
  \<open>openObsidianNote_reply now args out =
     andThen
       (template [Lit ''Opened new Obsidian note "'', Sub (noteName now args),
                  Lit ''" in vault "'', Sub (get args ''vault''), Lit ''"''])
       (\<lambda>t. Inr (textResult t))\<close>

definition openObsidianNote :: "executor \<Rightarrow> date \<Rightarrow> fields option \<Rightarrow> outcome" where
  \<open>openObsidianNote run now args =
     withArgs ''vault'' args
       (\<lambda>fs.
          if \<not> truthy (get fs ''vault'')
          then execThen run (Inr listVaults_cmd)
                 (\<lambda>(stdout, stderr). Inr (textResult (''Available vaults:\<newline>'' @ stdout)))
          else execThen run (openObsidianNote_cmd now fs) (openObsidianNote_reply now fs))\<close>

subsubsection \<open>\<^verbatim>\<open>claudeMcpAdd\<close> and \<^verbatim>\<open>claudeMcpList\<close>\<close>

fun decimal :: "nat \<Rightarrow> string" where
  "decimal n = (if n < 10 then [digit n] else decimal (n div 10) @ [digit n])"

text \<open>
  \<^verbatim>\<open>Object.entries(v)\<close> of a value that passed \<^verbatim>\<open>if (v)\<close>: the properties of an object, the
  indexed elements of an array, the indexed code units of a string, nothing for a number
  or a boolean.
\<close>

fun entries :: "jsval \<Rightarrow> js_error + (string \<times> jsval) list" where
  "entries (JObj kvs) = Inr kvs"
| "entries (JArr xs) = Inr (zip (map decimal [0..<length xs]) xs)"
| "entries (JStr s) = Inr (zip (map decimal [0..<length s]) (map (\<lambda>c. JStr [c]) s))"
| "entries (JNum t) = Inr []"
| "entries (JBool b) = Inr []"
| "entries v = Inl (TypeError ''Cannot convert undefined or null to object'')"

text \<open>The loop \<^verbatim>\<open>for (const [key, value] of ...) cmd += ` --env ${key}=${value}`\<close>.\<close>

fun addEnv :: "string \<Rightarrow> (string \<times> jsval) list \<Rightarrow> js_error + string" where
  "addEnv cmd [] = Inr cmd"
| "addEnv cmd ((key, v) # es) =
     andThen (template [Lit '' --env '', Lit key, Lit ''='', Sub v])
       (\<lambda>p. addEnv (cmd @ p) es)"

text \<open>\<^verbatim>\<open>args.args.join(' ')\<close>: only an array has the method.\<close>

fun joinMethod :: "jsval \<Rightarrow> string \<Rightarrow> js_error + string" where
  "joinMethod (JArr xs) sep =
     (case collect (map (\<lambda>v. if v = JUndefined \<or> v = JNull then Inr [] else ToString v) xs) of
        Inl e \<Rightarrow> Inl e
      | Inr ss \<Rightarrow> Inr (join sep ss))"
| "joinMethod v sep = Inl (TypeError ''args.args.join is not a function'')"

definition claudeMcpAdd_cmd :: "fields \<Rightarrow> js_error + string" where
  \<open>claudeMcpAdd_cmd args =
     andThen
       (appendIf (truthy (get args ''transport'') \<and> get args ''transport'' \<noteq> JStr ''stdio'')
          ''claude mcp add'' (template [Lit '' --transport '', Sub (get args ''transport'')]))
       (\<lambda>cmd. andThen
          (if truthy (get args ''env'')
           then andThen (entries (get args ''env'')) (addEnv cmd)
           else Inr cmd)
          (\<lambda>cmd. andThen (template [Lit '' '', Sub (get args ''name'')])
             (\<lambda>n.
                (let cmd = cmd @ n in
                 if get args ''transport'' = JStr ''sse'' \<or> get args ''transport'' = JStr ''http''
                 then
                   (if \<not> truthy (get args ''url'')
                    then Inl (Error ''URL is required for sse/http transport'')
                    else andThen (template [Lit '' '', Sub (get args ''url'')])
                           (\<lambda>u. Inr (cmd @ u)))
                 else
                   (if \<not> truthy (get args ''command'')
                    then Inl (Error ''Command is required for stdio transport'')
                    else andThen (template [Lit '' '', Sub (get args ''command'')])
                           (\<lambda>c. appendIf (truthy (get args ''args'')) (cmd @ c)
                                  (andThen (joinMethod (get args ''args'') '' '')
                                     (\<lambda>j. Inr ('' '' @ j)))))))))\<close>

definition claudeMcpAdd_reply :: "fields \<Rightarrow> string \<times> string \<Rightarrow> js_error + call_result" where
  \<open>claudeMcpAdd_reply args out =
     (case out of (stdout, stderr) \<Rightarrow>
        andThen (ToString (get args ''name''))
          (\<lambda>n. Inr (textResult (''Added MCP server "'' @ n @ ''"\<newline>'' @ stdout
                       @ (if stderr \<noteq> [] then ''\<newline>Errors: '' @ stderr else [])))))\<close>

definition claudeMcpAdd :: "executor \<Rightarrow> fields option \<Rightarrow> outcome" where
  "claudeMcpAdd run args =
     withArgs ''transport'' args (\<lambda>fs. execThen run (claudeMcpAdd_cmd fs) (claudeMcpAdd_reply fs))"

definition claudeMcpList :: "executor \<Rightarrow> outcome" where
  \<open>claudeMcpList run =
     execThen run (Inr ''claude mcp list'')
       (\<lambda>(stdout, stderr). Inr (textResult (''Configured MCP servers:\<newline>'' @ stdout)))\<close>

subsection \<open>The dispatcher\<close>

definition declaredTools :: "string list" where
  "declaredTools =
     [''tmux_split_window'', ''tmux_new_window'', ''tmux_list_sessions'',
      ''tmux_list_windows'', ''tmux_send_keys'', ''tmux_open_nvim'',
      ''tmux_open_obsidian_note'', ''claude_mcp_add'', ''claude_mcp_list'']"

definition callTool :: "executor \<Rightarrow> date \<Rightarrow> string \<Rightarrow> fields option \<Rightarrow> outcome" where
  "callTool run now name args =
     catchError
       (if name = ''tmux_split_window'' then splitWindow run args
        else if name = ''tmux_new_window'' then newWindow run args
        else if name = ''tmux_list_sessions'' then listSessions run
        else if name = ''tmux_list_windows'' then listWindows run
        else if name = ''tmux_send_keys'' then sendKeys run args
        else if name = ''tmux_open_nvim'' then openNvim run args
        else if name = ''tmux_open_obsidian_note'' then openObsidianNote run now args
        else if name = ''claude_mcp_add'' then claudeMcpAdd run args
        else if name = ''claude_mcp_list'' then claudeMcpList run
        else ([], Inl (Error (''Unknown tool: '' @ name))))"

section \<open>Notions the properties are stated with\<close>

text \<open>The commands a call handed to the executor, and the text of a reply's single block.\<close>

definition executed :: "outcome \<Rightarrow> string list" where
  "executed oc = fst oc"

definition replyText :: "outcome \<Rightarrow> string option" where
  "replyText oc =
     (case snd oc of
        Inl e \<Rightarrow> None
      | Inr res \<Rightarrow> (case content res of [b] \<Rightarrow> Some (text b) | _ \<Rightarrow> None))"

text \<open>
  The command a call of the longer version builds before it runs anything, or the
  exception it throws instead of running one.
\<close>

definition whenArgs ::
  "string \<Rightarrow> fields option \<Rightarrow> (fields \<Rightarrow> js_error + string) \<Rightarrow> js_error + string" where
  "whenArgs k args build =
     (case args of None \<Rightarrow> Inl (undefinedRead k) | Some fs \<Rightarrow> build fs)"

definition builtCommand :: "date \<Rightarrow> string \<Rightarrow> fields option \<Rightarrow> js_error + string" where
  "builtCommand now name args =
     (if name = ''tmux_split_window'' then whenArgs ''direction'' args splitWindow_cmd
      else if name = ''tmux_new_window'' then whenArgs ''name'' args newWindow_cmd
      else if name = ''tmux_list_sessions'' then Inr listSessions_cmd
      else if name = ''tmux_list_windows'' then Inr listWindows_cmd
      else if name = ''tmux_send_keys'' then whenArgs ''pane'' args sendKeys_cmd
      else if name = ''tmux_open_nvim'' then whenArgs ''split'' args openNvim_cmd
      else if name = ''tmux_open_obsidian_note''
        then whenArgs ''vault'' args
               (\<lambda>fs. if \<not> truthy (get fs ''vault'') then Inr listVaults_cmd
                     else openObsidianNote_cmd now fs)
      else if name = ''claude_mcp_add'' then whenArgs ''transport'' args claudeMcpAdd_cmd
      else if name = ''claude_mcp_list'' then Inr ''claude mcp list''
      else Inl (Error (''Unknown tool: '' @ name)))"

text \<open>
  Subprocesses to run the operations against: one that succeeds and prints nothing, one
  that succeeds and prints on both streams, one that exits with a failure. And a time
  of day.
\<close>

definition quietRun :: executor where
  "quietRun cmd = Inr ([], [])"

definition loudRun :: executor where
  "loudRun cmd = Inr (''main: 1 windows'', ''warning'')"

definition failingRun :: executor where
  "failingRun cmd = Inl (Error (''Command failed: '' @ cmd))"

definition sampleTime :: date where
  "sampleTime =
     \<lparr>year = 2024, month = 1, day = 2, hours = 3, minutes = 4, seconds = 5,
      milliseconds = 678\<rparr>"

text \<open>
  The format \<^verbatim>\<open>YYYY-MM-DD_HH-MM-SS\<close> of the specification: in the pattern a \<^verbatim>\<open>d\<close> stands
  for one decimal digit and every other character for itself.
\<close>

definition is_digit :: "char \<Rightarrow> bool" where
  "is_digit c = (c \<in> set ''0123456789'')"

fun matches :: "string \<Rightarrow> string \<Rightarrow> bool" where
  "matches [] [] = True"
| "matches (p # ps) (c # cs) = ((if p = CHR ''d'' then is_digit c else c = p) \<and> matches ps cs)"
| "matches ps cs = False"

definition spec_timestamp_format :: "string \<Rightarrow> bool" where
  "spec_timestamp_format s = matches ''dddd-dd-dd_dd-dd-dd'' s"

text \<open>The UTC fields of a time written as \<^verbatim>\<open>YYYY-MM-DD_HH-MM-SS\<close>, each with its fixed width.\<close>

definition timestamp :: "date \<Rightarrow> string" where
  "timestamp d =
     pad 4 (nat (year d)) @ ''-'' @ pad 2 (month d) @ ''-'' @ pad 2 (day d) @ ''_''
     @ pad 2 (hours d) @ ''-'' @ pad 2 (minutes d) @ ''-'' @ pad 2 (seconds d)"

section \<open>Facts about the executor and the dispatcher\<close>

lemma executed_execThen:
  "executed (execThen run built reply) = (case built of Inl e \<Rightarrow> [] | Inr cmd \<Rightarrow> [cmd])"
  by (simp add: executed_def execThen_def split: sum.splits)

lemma execThen_throw: "execThen run (Inl e) reply = ([], Inl e)"
  by (simp add: execThen_def)

lemma execThen_success:
  "run cmd = Inr out \<Longrightarrow> execThen run (Inr cmd) reply = ([cmd], reply out)"
  by (simp add: execThen_def)

lemma execThen_reject:
  "run cmd = Inl e \<Longrightarrow> execThen run (Inr cmd) reply = ([cmd], Inl e)"
  by (simp add: execThen_def)

lemma executed_catchError: "executed (catchError oc) = executed oc"
  by (cases oc) (simp add: executed_def catchError_def split: sum.splits)

lemma snd_catchError: "\<exists>res. snd (catchError oc) = Inr res"
  by (cases oc) (simp add: catchError_def split: sum.splits)

lemma catchError_throw:
  "catchError (cmds, Inl e) = (cmds, Inr (textResult (''Error: '' @ message e)))"
  by (simp add: catchError_def)

lemma catchError_return: "catchError (cmds, Inr res) = (cmds, Inr res)"
  by (simp add: catchError_def)

lemma replyText_textResult: "replyText (cmds, Inr (textResult t)) = Some t"
  by (simp add: replyText_def textResult_def)

lemma executed_callTool:
  "executed (callTool run now name args) =
     (case builtCommand now name args of Inl e \<Rightarrow> [] | Inr cmd \<Rightarrow> [cmd])"
  by (simp add: callTool_def builtCommand_def executed_catchError executed_execThen
      splitWindow_def newWindow_def listSessions_def listWindows_def sendKeys_def openNvim_def
      openObsidianNote_def claudeMcpAdd_def claudeMcpList_def withArgs_def whenArgs_def
      split: option.splits)
    (simp add: executed_def)

section \<open>Unknown tool names\<close>

text \<open>
  Claim C1. In both versions of the server the call handler returns a reply and throws
  nothing, whatever the tool name is, with any argument object or none. When the name is not one
  of the declared tools, the reply is the single text block
  \<^verbatim>\<open>Error: Unknown tool: <name>\<close>.
\<close>

theorem unknown_tool_error_reply:
  "(\<exists>res. snd (callTool run now name args) = Inr res)
   \<and> (\<exists>res. snd (callTool_index run name args) = Inr res)
   \<and> (name \<notin> set declaredTools \<longrightarrow>
        replyText (callTool run now name args) = Some (''Error: Unknown tool: '' @ name)
        \<and> snd (callTool run now name args) = Inr (textResult (''Error: Unknown tool: '' @ name)))
   \<and> (name \<notin> set declaredTools_index \<longrightarrow>
        replyText (callTool_index run name args) = Some (''Error: Unknown tool: '' @ name)
        \<and> snd (callTool_index run name args)
          = Inr (textResult (''Error: Unknown tool: '' @ name)))"
proof (intro conjI impI)
  show "\<exists>res. snd (callTool run now name args) = Inr res"
    unfolding callTool_def by (rule snd_catchError)
  show "\<exists>res. snd (callTool_index run name args) = Inr res"
    unfolding callTool_index_def by (rule snd_catchError)
next
  assume "name \<notin> set declaredTools"
  then have eq: "callTool run now name args
      = ([], Inr (textResult (''Error: Unknown tool: '' @ name)))"
    by (simp add: callTool_def declaredTools_def catchError_throw)
  show "replyText (callTool run now name args) = Some (''Error: Unknown tool: '' @ name)"
    by (simp only: eq replyText_textResult)
  show "snd (callTool run now name args) = Inr (textResult (''Error: Unknown tool: '' @ name))"
    by (simp only: eq snd_conv)
next
  assume "name \<notin> set declaredTools_index"
  then have eq: "callTool_index run name args
      = ([], Inr (textResult (''Error: Unknown tool: '' @ name)))"
    by (simp add: callTool_index_def declaredTools_index_def catchError_throw)
  show "replyText (callTool_index run name args) = Some (''Error: Unknown tool: '' @ name)"
    by (simp only: eq replyText_textResult)
  show "snd (callTool_index run name args)
      = Inr (textResult (''Error: Unknown tool: '' @ name))"
    by (simp only: eq snd_conv)
qed

theorem unknown_tool_error_reply_witness:
  "''tmux_kill_server'' \<notin> set declaredTools
   \<and> ''tmux_kill_server'' \<notin> set declaredTools_index
   \<and> replyText (callTool failingRun sampleTime ''tmux_kill_server'' (Some [(''force'', JBool True)]))
     = Some ''Error: Unknown tool: tmux_kill_server''
   \<and> replyText (callTool_index failingRun ''tmux_kill_server'' (Some [(''force'', JBool True)]))
     = Some ''Error: Unknown tool: tmux_kill_server''"
proof -
  have a: "''tmux_kill_server'' \<notin> set declaredTools"
    by (simp add: declaredTools_def)
  have b: "''tmux_kill_server'' \<notin> set declaredTools_index"
    by (simp add: declaredTools_index_def)
  from a b
    unknown_tool_error_reply [of failingRun sampleTime "''tmux_kill_server''"
      "Some [(''force'', JBool True)]"]
  show ?thesis by simp
qed

section \<open>How many subprocesses a call runs\<close>

text \<open>
  Claim C2, as stated: every call runs exactly one subprocess, also when the tool name is
  unknown or a required field is missing. It fails: a call with an unknown tool name runs
  none, and neither does \<^verbatim>\<open>claude_mcp_add\<close> without its \<^verbatim>\<open>command\<close>.
\<close>

theorem one_execution_per_call_counterexample:
  "executed (callTool quietRun sampleTime ''tmux_kill_server'' (Some [])) = []
   \<and> length (executed (callTool quietRun sampleTime ''tmux_kill_server'' (Some []))) \<noteq> 1
   \<and> executed (callTool quietRun sampleTime ''claude_mcp_add'' (Some [(''name'', JStr ''fs'')]))
       = []"
  by (simp add: executed_callTool builtCommand_def whenArgs_def claudeMcpAdd_cmd_def andThen_def
      appendIf_def get_def)

text \<open>
  Claim C2, amended: a call runs the one command its method builds, and nothing when the
  method throws before it has built one; so at most one subprocess per call, none for an
  unknown tool name, exactly one for the three listing tools.
\<close>

theorem at_most_one_execution_per_call:
  "executed (callTool run now name args) =
     (case builtCommand now name args of Inl e \<Rightarrow> [] | Inr cmd \<Rightarrow> [cmd])
   \<and> length (executed (callTool run now name args)) \<le> 1
   \<and> (name \<notin> set declaredTools \<longrightarrow> executed (callTool run now name args) = [])
   \<and> (name \<in> {''tmux_list_sessions'', ''tmux_list_windows'', ''claude_mcp_list''} \<longrightarrow>
        length (executed (callTool run now name args)) = 1)"
proof (intro conjI impI)
  show "executed (callTool run now name args) =
     (case builtCommand now name args of Inl e \<Rightarrow> [] | Inr cmd \<Rightarrow> [cmd])"
    by (rule executed_callTool)
  show "length (executed (callTool run now name args)) \<le> 1"
    by (simp add: executed_callTool split: sum.splits)
next
  assume "name \<notin> set declaredTools"
  then have "builtCommand now name args = Inl (Error (''Unknown tool: '' @ name))"
    by (simp add: builtCommand_def declaredTools_def)
  then show "executed (callTool run now name args) = []"
    by (simp add: executed_callTool)
next
  assume "name \<in> {''tmux_list_sessions'', ''tmux_list_windows'', ''claude_mcp_list''}"
  then have "\<exists>cmd. builtCommand now name args = Inr cmd"
    by (auto simp add: builtCommand_def)
  then show "length (executed (callTool run now name args)) = 1"
    by (auto simp add: executed_callTool)
qed

theorem at_most_one_execution_per_call_witness:
  "''tmux_kill_server'' \<notin> set declaredTools
   \<and> executed (callTool failingRun sampleTime ''tmux_kill_server'' None) = []
   \<and> ''claude_mcp_list'' \<in> {''tmux_list_sessions'', ''tmux_list_windows'', ''claude_mcp_list''}
   \<and> length (executed (callTool failingRun sampleTime ''claude_mcp_list'' None)) = 1"
proof -
  have a: "''tmux_kill_server'' \<notin> set declaredTools"
    by (simp add: declaredTools_def)
  have b: "''claude_mcp_list''
      \<in> {''tmux_list_sessions'', ''tmux_list_windows'', ''claude_mcp_list''}"
    by simp
  have 1: "executed (callTool failingRun sampleTime ''tmux_kill_server'' None) = []"
    by (rule at_most_one_execution_per_call
        [THEN conjunct2, THEN conjunct2, THEN conjunct1, rule_format, OF a])
  have 2: "length (executed (callTool failingRun sampleTime ''claude_mcp_list'' None)) = 1"
    by (rule at_most_one_execution_per_call
        [THEN conjunct2, THEN conjunct2, THEN conjunct2, rule_format, OF b])
  from a 1 2 show ?thesis by simp
qed

section \<open>The direction of a split\<close>










section \<open>The Enter keystroke of \<^verbatim>\<open>sendKeys\<close>\<close>

lemma sendKeys_cmd_Inr:
  assumes "sendKeys_cmd args = Inr cmd"
  shows "suffix '' Enter'' cmd \<longleftrightarrow> get args ''enter'' \<noteq> JBool False"
  using assms
  by (auto simp add: sendKeys_cmd_def andThen_def appendIf_def suffix_to_prefix
      split: if_splits sum.splits)

lemma sendKeys_cmd_index_eq: "sendKeys_cmd_index args = sendKeys_cmd args"
  by (simp add: sendKeys_cmd_index_def sendKeys_cmd_def)

lemma sendKeys_cmd_plain:
  assumes "get args ''keys'' = JStr k" and "get args ''pane'' = JUndefined"
  shows \<open>sendKeys_cmd args =
    Inr (''tmux send-keys "'' @ k @ ''"'' @
          (if get args ''enter'' \<noteq> JBool False then '' Enter'' else []))\<close>
  using assms by (simp add: sendKeys_cmd_def andThen_def appendIf_def)

text \<open>
  Claim C4. Whenever \<^verbatim>\<open>sendKeys\<close> builds a command from the fields of the argument
  object, it is the one both versions run, and
  it ends with the token \<^verbatim>\<open> Enter\<close> exactly when the \<^verbatim>\<open>enter\<close> field is not the boolean
  \<^verbatim>\<open>false\<close>: so when the field is omitted or \<^verbatim>\<open>true\<close>, and not when it is \<^verbatim>\<open>false\<close>. With
  a string for the keys and no pane the command is built, and it is
  \<^verbatim>\<open>tmux send-keys "<keys>"\<close> with or without the token.
\<close>

theorem sendKeys_enter_default:
  \<open>(sendKeys_cmd args = Inr cmd \<longrightarrow>
      executed (callTool run now ''tmux_send_keys'' (Some args)) = [cmd]
      \<and> executed (callTool_index run ''tmux_send_keys'' (Some args)) = [cmd]
      \<and> (suffix '' Enter'' cmd \<longleftrightarrow> get args ''enter'' \<noteq> JBool False))
   \<and> (get args ''keys'' = JStr k \<and> get args ''pane'' = JUndefined \<longrightarrow>
      sendKeys_cmd args =
        Inr (''tmux send-keys "'' @ k @ ''"'' @
              (if get args ''enter'' \<noteq> JBool False then '' Enter'' else [])))\<close>
proof (intro conjI impI)
  assume b: "sendKeys_cmd args = Inr cmd"
  then show "executed (callTool run now ''tmux_send_keys'' (Some args)) = [cmd]"
    by (simp add: executed_callTool builtCommand_def whenArgs_def)
  from b show "executed (callTool_index run ''tmux_send_keys'' (Some args)) = [cmd]"
    by (simp add: callTool_index_def executed_catchError executed_execThen sendKeys_index_def
        withArgs_def sendKeys_cmd_index_eq)
  from b show "suffix '' Enter'' cmd \<longleftrightarrow> get args ''enter'' \<noteq> JBool False"
    by (rule sendKeys_cmd_Inr)
next
  assume "get args ''keys'' = JStr k \<and> get args ''pane'' = JUndefined"
  then show \<open>sendKeys_cmd args =
        Inr (''tmux send-keys "'' @ k @ ''"'' @
              (if get args ''enter'' \<noteq> JBool False then '' Enter'' else []))\<close>
    by (simp add: sendKeys_cmd_plain)
qed

theorem sendKeys_enter_default_witness:
  \<open>sendKeys_cmd [(''keys'', JStr ''ls -la'')] = Inr ''tmux send-keys "ls -la" Enter''
   \<and> executed (callTool quietRun sampleTime ''tmux_send_keys''
        (Some [(''keys'', JStr ''ls -la'')]))
       = [''tmux send-keys "ls -la" Enter'']
   \<and> suffix '' Enter'' ''tmux send-keys "ls -la" Enter''
   \<and> sendKeys_cmd [(''keys'', JStr ''ls -la''), (''enter'', JBool False)]
       = Inr ''tmux send-keys "ls -la"''
   \<and> \<not> suffix '' Enter'' ''tmux send-keys "ls -la"''\<close>
proof -
  have a: \<open>sendKeys_cmd [(''keys'', JStr ''ls -la'')] = Inr ''tmux send-keys "ls -la" Enter''\<close>
    by (simp add: sendKeys_cmd_def andThen_def appendIf_def get_def)
  have b: \<open>sendKeys_cmd [(''keys'', JStr ''ls -la''), (''enter'', JBool False)]
       = Inr ''tmux send-keys "ls -la"''\<close>
    by (simp add: sendKeys_cmd_def andThen_def appendIf_def get_def)
  have c: "get [(''keys'', JStr ''ls -la'')] ''enter'' \<noteq> JBool False"
    by (simp add: get_def)
  have d: "get [(''keys'', JStr ''ls -la''), (''enter'', JBool False)] ''enter'' = JBool False"
    by (simp add: get_def)
  from a c
    sendKeys_enter_default [of "[(''keys'', JStr ''ls -la'')]"
      \<open>''tmux send-keys "ls -la" Enter''\<close> quietRun sampleTime]
  have 1: \<open>executed (callTool quietRun sampleTime ''tmux_send_keys''
        (Some [(''keys'', JStr ''ls -la'')]))
       = [''tmux send-keys "ls -la" Enter'']
     \<and> suffix '' Enter'' ''tmux send-keys "ls -la" Enter''\<close>
    by blast
  from b d
    sendKeys_enter_default [of "[(''keys'', JStr ''ls -la''), (''enter'', JBool False)]"
      \<open>''tmux send-keys "ls -la"''\<close> quietRun sampleTime]
  have 2: \<open>\<not> suffix '' Enter'' ''tmux send-keys "ls -la"''\<close>
    by blast
  from a b 1 2 show ?thesis by blast
qed

section \<open>Registering a remote tool without its target\<close>

lemma claudeMcpAdd_cmd_no_url:
  assumes "get args ''transport'' = JStr ''sse'' \<or> get args ''transport'' = JStr ''http''"
    and "\<not> truthy (get args ''url'')"
  shows "\<exists>e. claudeMcpAdd_cmd args = Inl e"
  using assms
  by (auto simp add: claudeMcpAdd_cmd_def andThen_def appendIf_def Let_def split: sum.splits)

lemma claudeMcpAdd_cmd_no_command:
  assumes "get args ''transport'' \<noteq> JStr ''sse''" "get args ''transport'' \<noteq> JStr ''http''"
    and "\<not> truthy (get args ''command'')"
  shows "\<exists>e. claudeMcpAdd_cmd args = Inl e"
  using assms
  by (auto simp add: claudeMcpAdd_cmd_def andThen_def appendIf_def Let_def split: sum.splits)

lemma claudeMcpAdd_cmd_no_url_plain:
  assumes "get args ''transport'' = JStr ''sse'' \<or> get args ''transport'' = JStr ''http''"
    and "\<not> truthy (get args ''url'')"
    and "\<not> truthy (get args ''env'')" and "ToString (get args ''name'') = Inr n"
  shows "claudeMcpAdd_cmd args = Inl (Error ''URL is required for sse/http transport'')"
  using assms
  by (auto simp add: claudeMcpAdd_cmd_def andThen_def appendIf_def Let_def)

lemma claudeMcpAdd_cmd_no_command_plain:
  assumes "get args ''transport'' = JUndefined \<or> get args ''transport'' = JStr ''stdio''"
    and "\<not> truthy (get args ''command'')"
    and "\<not> truthy (get args ''env'')" and "ToString (get args ''name'') = Inr n"
  shows "claudeMcpAdd_cmd args = Inl (Error ''Command is required for stdio transport'')"
  using assms
  by (auto simp add: claudeMcpAdd_cmd_def andThen_def appendIf_def Let_def)

lemma callTool_claudeMcpAdd_throw:
  assumes "claudeMcpAdd_cmd args = Inl e"
  shows "callTool run now ''claude_mcp_add'' (Some args)
    = ([], Inr (textResult (''Error: '' @ message e)))"
  using assms
  by (simp add: callTool_def claudeMcpAdd_def withArgs_def execThen_throw catchError_throw)

lemma callTool_claudeMcpAdd_no_arguments:
  "callTool run now ''claude_mcp_add'' None
    = ([], Inr (textResult (''Error: '' @ message (undefinedRead ''transport''))))"
  by (simp add: callTool_def claudeMcpAdd_def withArgs_def catchError_throw)

text \<open>
  Claim C5. A \<^verbatim>\<open>claude_mcp_add\<close> call with the transport \<^verbatim>\<open>sse\<close> or \<^verbatim>\<open>http\<close> and no
  \<^verbatim>\<open>url\<close> runs no subprocess and replies with an error text; so does a call with any other
  transport, the default among them, and no \<^verbatim>\<open>command\<close>. When nothing before the check
  throws (no \<^verbatim>\<open>env\<close>, a name that converts to a string), the text is the message of the
  check itself. A request without an argument object has neither field: it runs nothing
  and replies with an error text as well.
\<close>

theorem register_without_target_fails:
  "((get args ''transport'' = JStr ''sse'' \<or> get args ''transport'' = JStr ''http'')
      \<and> \<not> truthy (get args ''url'') \<longrightarrow>
      executed (callTool run now ''claude_mcp_add'' (Some args)) = []
      \<and> (\<exists>m. replyText (callTool run now ''claude_mcp_add'' (Some args)) = Some (''Error: '' @ m))
      \<and> (\<not> truthy (get args ''env'') \<and> ToString (get args ''name'') = Inr n \<longrightarrow>
           replyText (callTool run now ''claude_mcp_add'' (Some args))
             = Some ''Error: URL is required for sse/http transport''))
   \<and> (get args ''transport'' \<noteq> JStr ''sse'' \<and> get args ''transport'' \<noteq> JStr ''http''
      \<and> \<not> truthy (get args ''command'') \<longrightarrow>
      executed (callTool run now ''claude_mcp_add'' (Some args)) = []
      \<and> (\<exists>m. replyText (callTool run now ''claude_mcp_add'' (Some args)) = Some (''Error: '' @ m))
      \<and> ((get args ''transport'' = JUndefined \<or> get args ''transport'' = JStr ''stdio'')
           \<and> \<not> truthy (get args ''env'') \<and> ToString (get args ''name'') = Inr n \<longrightarrow>
           replyText (callTool run now ''claude_mcp_add'' (Some args))
             = Some ''Error: Command is required for stdio transport''))
   \<and> executed (callTool run now ''claude_mcp_add'' None) = []
   \<and> (\<exists>m. replyText (callTool run now ''claude_mcp_add'' None) = Some (''Error: '' @ m))"
proof (intro conjI impI)
  assume h: "(get args ''transport'' = JStr ''sse'' \<or> get args ''transport'' = JStr ''http'')
      \<and> \<not> truthy (get args ''url'')"
  then obtain e where e: "claudeMcpAdd_cmd args = Inl e"
    using claudeMcpAdd_cmd_no_url by blast
  show "executed (callTool run now ''claude_mcp_add'' (Some args)) = []"
    by (simp add: callTool_claudeMcpAdd_throw [OF e] executed_def)
  show "\<exists>m. replyText (callTool run now ''claude_mcp_add'' (Some args)) = Some (''Error: '' @ m)"
    by (simp add: callTool_claudeMcpAdd_throw [OF e] replyText_textResult)
  assume "\<not> truthy (get args ''env'') \<and> ToString (get args ''name'') = Inr n"
  with h have "claudeMcpAdd_cmd args = Inl (Error ''URL is required for sse/http transport'')"
    using claudeMcpAdd_cmd_no_url_plain by blast
  then show "replyText (callTool run now ''claude_mcp_add'' (Some args))
             = Some ''Error: URL is required for sse/http transport''"
    by (simp add: callTool_claudeMcpAdd_throw replyText_textResult)
next
  assume h: "get args ''transport'' \<noteq> JStr ''sse'' \<and> get args ''transport'' \<noteq> JStr ''http''
      \<and> \<not> truthy (get args ''command'')"
  then obtain e where e: "claudeMcpAdd_cmd args = Inl e"
    using claudeMcpAdd_cmd_no_command by blast
  show "executed (callTool run now ''claude_mcp_add'' (Some args)) = []"
    by (simp add: callTool_claudeMcpAdd_throw [OF e] executed_def)
  show "\<exists>m. replyText (callTool run now ''claude_mcp_add'' (Some args)) = Some (''Error: '' @ m)"
    by (simp add: callTool_claudeMcpAdd_throw [OF e] replyText_textResult)
  assume "(get args ''transport'' = JUndefined \<or> get args ''transport'' = JStr ''stdio'')
           \<and> \<not> truthy (get args ''env'') \<and> ToString (get args ''name'') = Inr n"
  with h have "claudeMcpAdd_cmd args = Inl (Error ''Command is required for stdio transport'')"
    using claudeMcpAdd_cmd_no_command_plain by blast
  then show "replyText (callTool run now ''claude_mcp_add'' (Some args))
             = Some ''Error: Command is required for stdio transport''"
    by (simp add: callTool_claudeMcpAdd_throw replyText_textResult)
next
  show "executed (callTool run now ''claude_mcp_add'' None) = []"
    by (simp add: callTool_claudeMcpAdd_no_arguments executed_def)
  show "\<exists>m. replyText (callTool run now ''claude_mcp_add'' None) = Some (''Error: '' @ m)"
    by (simp add: callTool_claudeMcpAdd_no_arguments replyText_textResult)
qed

theorem register_without_target_fails_witness:
  "get [(''name'', JStr ''fs''), (''transport'', JStr ''sse'')] ''transport'' = JStr ''sse''
   \<and> \<not> truthy (get [(''name'', JStr ''fs''), (''transport'', JStr ''sse'')] ''url'')
   \<and> executed (callTool quietRun sampleTime ''claude_mcp_add''
        (Some [(''name'', JStr ''fs''), (''transport'', JStr ''sse'')])) = []
   \<and> replyText (callTool quietRun sampleTime ''claude_mcp_add''
        (Some [(''name'', JStr ''fs''), (''transport'', JStr ''sse'')]))
       = Some ''Error: URL is required for sse/http transport''
   \<and> get [(''name'', JStr ''fs'')] ''transport'' = JUndefined
   \<and> \<not> truthy (get [(''name'', JStr ''fs'')] ''command'')
   \<and> executed (callTool quietRun sampleTime ''claude_mcp_add'' (Some [(''name'', JStr ''fs'')]))
       = []
   \<and> replyText (callTool quietRun sampleTime ''claude_mcp_add'' (Some [(''name'', JStr ''fs'')]))
       = Some ''Error: Command is required for stdio transport''"
proof -
  let ?a = "[(''name'', JStr ''fs''), (''transport'', JStr ''sse'')]"
  let ?b = "[(''name'', JStr ''fs'')]"
  have a1: "get ?a ''transport'' = JStr ''sse''" by (simp add: get_def)
  have a2: "\<not> truthy (get ?a ''url'')" by (simp add: get_def)
  have a3: "\<not> truthy (get ?a ''env'') \<and> ToString (get ?a ''name'') = Inr ''fs''"
    by (simp add: get_def)
  have b1: "get ?b ''transport'' = JUndefined" by (simp add: get_def)
  have b2: "\<not> truthy (get ?b ''command'')" by (simp add: get_def)
  have b3: "\<not> truthy (get ?b ''env'') \<and> ToString (get ?b ''name'') = Inr ''fs''"
    by (simp add: get_def)
  note A = register_without_target_fails
      [where args = ?a and run = quietRun and now = sampleTime and n = "''fs''",
        THEN conjunct1, rule_format, OF conjI [OF disjI1 [OF a1] a2]]
  note B = register_without_target_fails
      [where args = ?b and run = quietRun and now = sampleTime and n = "''fs''",
        THEN conjunct2, THEN conjunct1, rule_format]
  have b0: "get ?b ''transport'' \<noteq> JStr ''sse'' \<and> get ?b ''transport'' \<noteq> JStr ''http''
      \<and> \<not> truthy (get ?b ''command'')"
    by (simp add: get_def)
  have "executed (callTool quietRun sampleTime ''claude_mcp_add'' (Some ?a)) = []"
    by (rule A [THEN conjunct1])
  moreover have "replyText (callTool quietRun sampleTime ''claude_mcp_add'' (Some ?a))
       = Some ''Error: URL is required for sse/http transport''"
    by (rule A [THEN conjunct2, THEN conjunct2, rule_format, OF a3])
  moreover have "executed (callTool quietRun sampleTime ''claude_mcp_add'' (Some ?b)) = []"
    by (rule B [OF b0, THEN conjunct1])
  moreover have "replyText (callTool quietRun sampleTime ''claude_mcp_add'' (Some ?b))
       = Some ''Error: Command is required for stdio transport''"
    by (rule B [OF b0, THEN conjunct2, THEN conjunct2, rule_format,
          OF conjI [OF disjI1 [OF b1] b3]])
  ultimately show ?thesis
    using a1 a2 b1 b2 by simp
qed

section \<open>A note without a vault\<close>

lemma listVaults_cmd_text:
  \<open>listVaults_cmd
     = ''ls "/Users/ldraney/Library/Mobile Documents/iCloud~md~obsidian/Documents"''\<close>
  by (simp add: listVaults_cmd_def obsidianBase_def)

lemma listVaults_no_editor:
  "\<not> sublist ''nvim'' listVaults_cmd" "\<not> sublist ''split-window'' listVaults_cmd"
  "\<not> sublist ''tmux'' listVaults_cmd"
  unfolding listVaults_cmd_text by (simp_all add: sublist_Cons_right)

text \<open>
  With an argument object whose \<^verbatim>\<open>vault\<close> field is absent (or any other value that counts
  as false), \<^verbatim>\<open>openObsidianNote\<close> runs one command, the listing of the vault directory,
  which mentions neither the editor nor a split; when that subprocess exits normally, the
  text of the reply is \<^verbatim>\<open>Available vaults:\<close>, a newline, and its output.
\<close>

lemma vault_absent_in_object_lists_vaults:
  assumes "\<not> truthy (get fs ''vault'')"
  shows \<open>executed (callTool run now ''tmux_open_obsidian_note'' (Some fs)) = [listVaults_cmd]
    \<and> (run listVaults_cmd = Inr (stdout, stderr) \<longrightarrow>
         replyText (callTool run now ''tmux_open_obsidian_note'' (Some fs))
           = Some (''Available vaults:\<newline>'' @ stdout))\<close>
proof (intro conjI impI)
  from assms
  show "executed (callTool run now ''tmux_open_obsidian_note'' (Some fs)) = [listVaults_cmd]"
    by (simp add: executed_callTool builtCommand_def whenArgs_def)
next
  assume "run listVaults_cmd = Inr (stdout, stderr)"
  with assms show "replyText (callTool run now ''tmux_open_obsidian_note'' (Some fs))
           = Some (''Available vaults:\<newline>'' @ stdout)"
    by (simp add: callTool_def openObsidianNote_def withArgs_def execThen_success
        catchError_return replyText_textResult)
qed

text \<open>
  Claim C6. A \<^verbatim>\<open>tmux_open_obsidian_note\<close> call whose \<^verbatim>\<open>vault\<close> field is absent runs the
  listing and returns the vaults. The method misses one such call: the request that
  carries no argument object at all. There \<^verbatim>\<open>args.vault\<close> is read on \<^verbatim>\<open>undefined\<close>, the
  \<^verbatim>\<open>TypeError\<close> is caught by the dispatcher, no command is run and the reply is the
  error's message, while the same call with the empty object lists the vaults.
\<close>

theorem note_call_without_arguments_runs_nothing:
  \<open>executed (callTool run now ''tmux_open_obsidian_note'' None) = []
   \<and> replyText (callTool run now ''tmux_open_obsidian_note'' None)
       = Some ''Error: Cannot read properties of undefined (reading 'vault')''
   \<and> executed (callTool run now ''tmux_open_obsidian_note'' (Some [])) = [listVaults_cmd]
   \<and> listVaults_cmd
       = ''ls "/Users/ldraney/Library/Mobile Documents/iCloud~md~obsidian/Documents"''\<close>
proof (intro conjI)
  have n: "callTool run now ''tmux_open_obsidian_note'' None
      = ([], Inr (textResult (''Error: '' @ message (undefinedRead ''vault''))))"
    by (simp add: callTool_def openObsidianNote_def withArgs_def catchError_throw)
  show "executed (callTool run now ''tmux_open_obsidian_note'' None) = []"
    by (simp add: n executed_def)
  show \<open>replyText (callTool run now ''tmux_open_obsidian_note'' None)
       = Some ''Error: Cannot read properties of undefined (reading 'vault')''\<close>
    by (simp add: n replyText_textResult undefinedRead_def apostrophe_def)
  show "executed (callTool run now ''tmux_open_obsidian_note'' (Some [])) = [listVaults_cmd]"
    by (simp add: executed_callTool builtCommand_def whenArgs_def get_def)
  show \<open>listVaults_cmd
       = ''ls "/Users/ldraney/Library/Mobile Documents/iCloud~md~obsidian/Documents"''\<close>
    by (rule listVaults_cmd_text)
qed

section \<open>The list of sessions\<close>

text \<open>
  Claim C7. In both versions a \<^verbatim>\<open>tmux_list_sessions\<close> call runs the one fixed command,
  whatever its fields are; when the subprocess exits normally, the text of the reply is
  \<^verbatim>\<open>Tmux sessions:\<close>, a newline, and the captured standard output as it is.
\<close>

theorem listSessions_reply:
  \<open>listSessions_cmd = ''tmux list-sessions -F "#{session_name}: #{session_windows} windows"''
   \<and> listSessions_cmd_index = listSessions_cmd
   \<and> executed (callTool run now ''tmux_list_sessions'' args) = [listSessions_cmd]
   \<and> executed (callTool_index run ''tmux_list_sessions'' args) = [listSessions_cmd]
   \<and> (run listSessions_cmd = Inr (stdout, stderr) \<longrightarrow>
        replyText (callTool run now ''tmux_list_sessions'' args)
          = Some (''Tmux sessions:\<newline>'' @ stdout)
        \<and> replyText (callTool_index run ''tmux_list_sessions'' args)
          = Some (''Tmux sessions:\<newline>'' @ stdout))\<close>
proof (intro conjI impI)
  show \<open>listSessions_cmd = ''tmux list-sessions -F "#{session_name}: #{session_windows} windows"''\<close>
    by (simp add: listSessions_cmd_def)
  show eq: "listSessions_cmd_index = listSessions_cmd"
    by (simp add: listSessions_cmd_index_def listSessions_cmd_def)
  show "executed (callTool run now ''tmux_list_sessions'' args) = [listSessions_cmd]"
    by (simp add: executed_callTool builtCommand_def)
  show "executed (callTool_index run ''tmux_list_sessions'' args) = [listSessions_cmd]"
    by (simp add: callTool_index_def executed_catchError listSessions_index_def
        executed_execThen eq)
next
  assume ok: "run listSessions_cmd = Inr (stdout, stderr)"
  then show "replyText (callTool run now ''tmux_list_sessions'' args)
          = Some (''Tmux sessions:\<newline>'' @ stdout)"
    by (simp add: callTool_def listSessions_def execThen_success catchError_return
        replyText_textResult)
  from ok have "run listSessions_cmd_index = Inr (stdout, stderr)"
    by (simp add: listSessions_cmd_index_def listSessions_cmd_def)
  then show "replyText (callTool_index run ''tmux_list_sessions'' args)
          = Some (''Tmux sessions:\<newline>'' @ stdout)"
    by (simp add: callTool_index_def listSessions_index_def execThen_success catchError_return
        replyText_textResult)
qed

theorem listSessions_reply_witness:
  "loudRun listSessions_cmd = Inr (''main: 1 windows'', ''warning'')
   \<and> replyText (callTool loudRun sampleTime ''tmux_list_sessions'' None)
       = Some ''Tmux sessions:\<newline>main: 1 windows''
   \<and> replyText (callTool_index loudRun ''tmux_list_sessions'' None)
       = Some ''Tmux sessions:\<newline>main: 1 windows''"
proof -
  have a: "loudRun listSessions_cmd = Inr (''main: 1 windows'', ''warning'')"
    by (simp add: loudRun_def)
  from a listSessions_reply [where run = loudRun and stdout = "''main: 1 windows''"
      and stderr = "''warning''" and now = sampleTime and args = None]
  show ?thesis by simp
qed

section \<open>The default name of a note\<close>

lemma digit_in: "digit n \<in> set ''0123456789''"
  unfolding digit_def by (rule nth_mem) simp

lemma is_digit_digit: "is_digit (digit n)"
  by (simp only: is_digit_def digit_in)

lemma digit_neq: "digit n \<noteq> CHR ''T''" "digit n \<noteq> CHR '':''"
  using digit_in [of n] by auto

lemma length_pad: "length (pad w n) = w"
  by (induction w arbitrary: n) simp_all

lemma pad_digits: "c \<in> set (pad w n) \<Longrightarrow> c \<in> set ''0123456789''"
proof (induction w arbitrary: n)
  case 0
  then show ?case by simp
next
  case (Suc w)
  from Suc.prems have "c \<in> set (pad w (n div 10)) \<or> c = digit n"
    by auto
  then show ?case
    using Suc.IH [of "n div 10"] digit_in [of n] by blast
qed

lemma pad_no_T: "CHR ''T'' \<notin> set (pad w n)"
  using pad_digits [of "CHR ''T''" w n] by auto

lemma pad_no_colon: "CHR '':'' \<notin> set (pad w n)"
  using pad_digits [of "CHR '':''" w n] by auto

lemma replaceFirst_append_notin:
  "a \<notin> set xs \<Longrightarrow> replaceFirst a b (xs @ ys) = xs @ replaceFirst a b ys"
  by (induction xs) auto

lemma replaceAll_append: "replaceAll a b (xs @ ys) = replaceAll a b xs @ replaceAll a b ys"
  by (simp add: replaceAll_def)

lemma replaceAll_notin: "a \<notin> set xs \<Longrightarrow> replaceAll a b xs = xs"
  by (induction xs) (auto simp add: replaceAll_def)

lemma replaceAll_Cons:
  "replaceAll a b (c # cs) = (if c = a then b else [c]) @ replaceAll a b cs"
  by (simp add: replaceAll_def)

lemma replaceAll_Nil: "replaceAll a b [] = []"
  by (simp add: replaceAll_def)

lemma matches_append:
  "length ps = length cs \<Longrightarrow> matches (ps @ ps') (cs @ cs') = (matches ps cs \<and> matches ps' cs')"
  by (induction ps cs rule: list_induct2) auto

lemma matches_pad: "matches (replicate w CHR ''d'') (pad w n)"
proof (induction w arbitrary: n)
  case 0
  show ?case by simp
next
  case (Suc w)
  have "matches (replicate w CHR ''d'' @ [CHR ''d'']) (pad w (n div 10) @ [digit n])"
    by (simp add: matches_append length_pad Suc.IH is_digit_digit)
  then show ?case
    by (simp add: replicate_append_same)
qed

lemma take_19_toISOString:
  assumes "0 \<le> year d" "year d \<le> 9999"
  shows "take 19 (toISOString d) =
    pad 4 (nat (year d)) @ ''-'' @ pad 2 (month d) @ ''-'' @ pad 2 (day d) @ ''T''
     @ pad 2 (hours d) @ '':'' @ pad 2 (minutes d) @ '':'' @ pad 2 (seconds d)"
  using assms by (simp add: toISOString_def length_pad)

lemma timestamp_of_toISOString:
  assumes "0 \<le> year d" "year d \<le> 9999"
  shows "replaceAll CHR '':'' ''-'' (replaceFirst CHR ''T'' ''_'' (take 19 (toISOString d)))
     = timestamp d"
proof -
  have 1: "replaceFirst CHR ''T'' ''_'' (take 19 (toISOString d)) =
    pad 4 (nat (year d)) @ ''-'' @ pad 2 (month d) @ ''-'' @ pad 2 (day d) @ ''_''
     @ pad 2 (hours d) @ '':'' @ pad 2 (minutes d) @ '':'' @ pad 2 (seconds d)"
    unfolding take_19_toISOString [OF assms]
    by (simp add: replaceFirst_append_notin pad_no_T)
  show ?thesis
    unfolding 1 timestamp_def
    by (simp add: replaceAll_append replaceAll_Cons replaceAll_Nil replaceAll_notin pad_no_colon)
qed

lemma timestamp_format: "spec_timestamp_format (timestamp d)"
proof -
  have "matches (replicate 4 CHR ''d'' @ ''-'' @ replicate 2 CHR ''d'' @ ''-''
      @ replicate 2 CHR ''d'' @ ''_'' @ replicate 2 CHR ''d'' @ ''-'' @ replicate 2 CHR ''d''
      @ ''-'' @ replicate 2 CHR ''d'') (timestamp d)"
    unfolding timestamp_def
    by (simp add: matches_append length_pad matches_pad)
  moreover have "replicate 4 CHR ''d'' @ ''-'' @ replicate 2 CHR ''d'' @ ''-''
      @ replicate 2 CHR ''d'' @ ''_'' @ replicate 2 CHR ''d'' @ ''-'' @ replicate 2 CHR ''d''
      @ ''-'' @ replicate 2 CHR ''d'' = ''dddd-dd-dd_dd-dd-dd''"
    by (simp add: eval_nat_numeral)
  ultimately show ?thesis
    by (simp only: spec_timestamp_format_def)
qed

lemma pad_numeral: "pad (numeral k) n = pad (pred_numeral k) (n div 10) @ [digit n]"
proof -
  have "pad (Suc (pred_numeral k)) n = pad (pred_numeral k) (n div 10) @ [digit n]"
    by (rule pad.simps(2))
  then show ?thesis
    by (simp only: numeral_eq_Suc [symmetric])
qed

text \<open>
  Claim C8, as stated: without a \<^verbatim>\<open>note_name\<close> the file name is the current time in the
  format \<^verbatim>\<open>YYYY-MM-DD_HH-MM-SS\<close>, for every current time. It fails: the method appends
  \<^verbatim>\<open>.md\<close>, so the name has three characters more than the format; and from the year
  10000 on \<^verbatim>\<open>toISOString\<close> writes a sign and six digits, of which \<^verbatim>\<open>slice(0, 19)\<close> keeps
  the date and only the hours and minutes.
\<close>

theorem note_name_format_counterexample:
  \<open>noteName sampleTime [(''vault'', JStr ''work'')] = JStr ''2024-01-02_03-04-05.md''
   \<and> \<not> spec_timestamp_format ''2024-01-02_03-04-05.md''
   \<and> noteName \<lparr>year = 12024, month = 11, day = 22, hours = 13, minutes = 14, seconds = 15,
        milliseconds = 6\<rparr> [(''vault'', JStr ''work'')] = JStr ''+012024-11-22_13-14.md''
   \<and> \<not> spec_timestamp_format ''+012024-11-22_13-14''\<close>
  by (simp add: noteName_def get_def toISOString_def sampleTime_def replaceAll_def digit_def
      spec_timestamp_format_def is_digit_def pad_numeral)

lemma noteName_default:
  assumes "0 \<le> year now" "year now \<le> 9999" "\<not> truthy (get args ''note_name'')"
  shows "noteName now args = JStr (timestamp now @ ''.md'')"
  using assms by (simp add: noteName_def timestamp_of_toISOString)

lemma openObsidianNote_cmd_string_vault:
  assumes "get args ''vault'' = JStr v" and "noteName now args = JStr f"
  shows \<open>openObsidianNote_cmd now args =
     Inr (''tmux split-window '' @ (if get args ''split'' = JStr ''vertical'' then ''-v'' else ''-h'')
          @ '' -c "'' @ obsidianBase @ ''/'' @ v @ ''" "nvim '' @ apostrophe
          @ obsidianBase @ ''/'' @ v @ ''/'' @ f @ apostrophe @ ''"'')\<close>
  using assms by (simp add: openObsidianNote_cmd_def andThen_def)

text \<open>
  Claim C8, amended: for a current time in the years 0 to 9999, a call without a
  \<^verbatim>\<open>note_name\<close> names the file by the current UTC time in the format
  \<^verbatim>\<open>YYYY-MM-DD_HH-MM-SS\<close> followed by \<^verbatim>\<open>.md\<close>, and with a vault given as a non-empty
  string this is the file the editor is started on.
\<close>

theorem note_name_timestamp_md:
  assumes "0 \<le> year now" and "year now \<le> 9999" and "\<not> truthy (get args ''note_name'')"
  shows \<open>noteName now args = JStr (timestamp now @ ''.md'')
    \<and> spec_timestamp_format (timestamp now)
    \<and> (get args ''vault'' = JStr v \<and> v \<noteq> [] \<longrightarrow>
         executed (callTool run now ''tmux_open_obsidian_note'' (Some args)) =
           [''tmux split-window ''
            @ (if get args ''split'' = JStr ''vertical'' then ''-v'' else ''-h'')
            @ '' -c "'' @ obsidianBase @ ''/'' @ v @ ''" "nvim '' @ apostrophe
            @ obsidianBase @ ''/'' @ v @ ''/'' @ timestamp now @ ''.md'' @ apostrophe @ ''"''])\<close>
proof (intro conjI impI)
  show n: "noteName now args = JStr (timestamp now @ ''.md'')"
    using assms by (rule noteName_default)
  show "spec_timestamp_format (timestamp now)"
    by (rule timestamp_format)
  assume v: "get args ''vault'' = JStr v \<and> v \<noteq> []"
  then have "builtCommand now ''tmux_open_obsidian_note'' (Some args)
      = openObsidianNote_cmd now args"
    by (simp add: builtCommand_def whenArgs_def)
  with v show \<open>executed (callTool run now ''tmux_open_obsidian_note'' (Some args)) =
           [''tmux split-window ''
            @ (if get args ''split'' = JStr ''vertical'' then ''-v'' else ''-h'')
            @ '' -c "'' @ obsidianBase @ ''/'' @ v @ ''" "nvim '' @ apostrophe
            @ obsidianBase @ ''/'' @ v @ ''/'' @ timestamp now @ ''.md'' @ apostrophe @ ''"'']\<close>
    by (simp add: executed_callTool openObsidianNote_cmd_string_vault [OF _ n])
qed

theorem note_name_timestamp_md_witness:
  \<open>0 \<le> year sampleTime \<and> year sampleTime \<le> 9999
   \<and> \<not> truthy (get [(''vault'', JStr ''work'')] ''note_name'')
   \<and> noteName sampleTime [(''vault'', JStr ''work'')] = JStr (timestamp sampleTime @ ''.md'')
   \<and> timestamp sampleTime = ''2024-01-02_03-04-05''
   \<and> spec_timestamp_format ''2024-01-02_03-04-05''\<close>
proof -
  have a: "0 \<le> year sampleTime" and b: "year sampleTime \<le> 9999"
    by (simp_all add: sampleTime_def)
  have c: "\<not> truthy (get [(''vault'', JStr ''work'')] ''note_name'')"
    by (simp add: get_def)
  have d: "timestamp sampleTime = ''2024-01-02_03-04-05''"
    by (simp add: timestamp_def sampleTime_def digit_def pad_numeral)
  from note_name_timestamp_md [OF a b c, where v = "''work''" and run = quietRun]
  have "noteName sampleTime [(''vault'', JStr ''work'')] = JStr (timestamp sampleTime @ ''.md'')"
    and "spec_timestamp_format (timestamp sampleTime)"
    by simp_all
  with a b c d show ?thesis by simp
qed

section \<open>The two versions on the tools they share\<close>

lemma cmd_index_eqs:
  "splitWindow_cmd_index = splitWindow_cmd" "newWindow_cmd_index = newWindow_cmd"
  "sendKeys_cmd_index = sendKeys_cmd" "openNvim_cmd_index = openNvim_cmd"
  by (rule ext,
      simp add: splitWindow_cmd_index_def splitWindow_cmd_def newWindow_cmd_index_def
        newWindow_cmd_def sendKeys_cmd_index_def sendKeys_cmd_def openNvim_cmd_index_def
        openNvim_cmd_def)+

lemma reply_index_eqs:
  "splitWindow_reply_index = splitWindow_reply" "newWindow_reply_index = newWindow_reply"
  "sendKeys_reply_index = sendKeys_reply" "openNvim_reply_index = openNvim_reply"
  by (intro ext,
      simp add: splitWindow_reply_index_def splitWindow_reply_def newWindow_reply_index_def
        newWindow_reply_def sendKeys_reply_index_def sendKeys_reply_def
        openNvim_reply_index_def openNvim_reply_def)+

lemma splitWindow_index_eq: "splitWindow_index run args = splitWindow run args"
  by (simp add: splitWindow_index_def splitWindow_def cmd_index_eqs reply_index_eqs)

lemma newWindow_index_eq: "newWindow_index run args = newWindow run args"
  by (simp add: newWindow_index_def newWindow_def cmd_index_eqs reply_index_eqs)

lemma listSessions_index_eq: "listSessions_index run = listSessions run"
  by (simp add: listSessions_index_def listSessions_def listSessions_cmd_index_def
      listSessions_cmd_def)

lemma listWindows_index_eq: "listWindows_index run = listWindows run"
  by (simp add: listWindows_index_def listWindows_def listWindows_cmd_index_def
      listWindows_cmd_def)

lemma sendKeys_index_eq: "sendKeys_index run args = sendKeys run args"
  by (simp add: sendKeys_index_def sendKeys_def cmd_index_eqs reply_index_eqs)

lemma openNvim_index_eq: "openNvim_index run args = openNvim run args"
  by (simp add: openNvim_index_def openNvim_def cmd_index_eqs reply_index_eqs)

lemmas index_eqs = splitWindow_index_eq newWindow_index_eq listSessions_index_eq
  listWindows_index_eq sendKeys_index_eq openNvim_index_eq

text \<open>
  Claim C9. For each of the six tools that \<^verbatim>\<open>src/index.ts\<close> declares and for every
  argument object, or none, the two versions of the server run the same commands and
  return the same reply.
\<close>

theorem shared_tools_agree:
  "name \<in> set declaredTools_index \<Longrightarrow>
     callTool run now name args = callTool_index run name args"
  by (auto simp add: declaredTools_index_def callTool_def callTool_index_def index_eqs)

theorem shared_tools_agree_witness:
  \<open>''tmux_send_keys'' \<in> set declaredTools_index
   \<and> callTool loudRun sampleTime ''tmux_send_keys'' (Some [(''keys'', JStr ''ls'')])
     = callTool_index loudRun ''tmux_send_keys'' (Some [(''keys'', JStr ''ls'')])
   \<and> executed (callTool_index loudRun ''tmux_send_keys'' (Some [(''keys'', JStr ''ls'')]))
     = [''tmux send-keys "ls" Enter'']\<close>
proof -
  have h: "''tmux_send_keys'' \<in> set declaredTools_index"
    by (simp add: declaredTools_index_def)
  have \<open>executed (callTool_index loudRun ''tmux_send_keys'' (Some [(''keys'', JStr ''ls'')]))
     = [''tmux send-keys "ls" Enter'']\<close>
    by (simp add: callTool_index_def sendKeys_index_def sendKeys_cmd_index_def
        executed_catchError executed_execThen withArgs_def andThen_def appendIf_def get_def)
  with h shared_tools_agree [OF h, of loudRun sampleTime "Some [(''keys'', JStr ''ls'')]"]
  show ?thesis by simp
qed

section \<open>The replies of the mutating operations\<close>

lemma execThen_ignores_output:
  assumes "\<And>out out'. reply out = reply out'"
    and "execThen run1 built reply = (cmds1, Inr res1)"
    and "execThen run2 built reply = (cmds2, Inr res2)"
  shows "res1 = res2 \<and> cmds1 = cmds2"
proof (cases built)
  case (Inl e)
  with assms(2) show ?thesis by (simp add: execThen_def)
next
  case (Inr cmd)
  from Inr assms(2) obtain out1 where 1: "cmds1 = [cmd]" "reply out1 = Inr res1"
    by (auto simp add: execThen_def split: sum.splits)
  from Inr assms(3) obtain out2 where 2: "cmds2 = [cmd]" "reply out2 = Inr res2"
    by (auto simp add: execThen_def split: sum.splits)
  from assms(1) [of out1 out2] 1 2 show ?thesis by simp
qed

lemma withArgs_ignores_output:
  assumes "\<And>fs out out'. reply fs out = reply fs out'"
    and "withArgs k args (\<lambda>fs. execThen run1 (build fs) (reply fs)) = (cmds1, Inr res1)"
    and "withArgs k args (\<lambda>fs. execThen run2 (build fs) (reply fs)) = (cmds2, Inr res2)"
  shows "res1 = res2 \<and> cmds1 = cmds2"
proof (cases args)
  case None
  with assms(2) show ?thesis by (simp add: withArgs_def)
next
  case (Some fs)
  with assms(2,3)
  have "execThen run1 (build fs) (reply fs) = (cmds1, Inr res1)"
    and "execThen run2 (build fs) (reply fs) = (cmds2, Inr res2)"
    by (simp_all add: withArgs_def)
  with assms(1) [of fs] show ?thesis
    by (rule execThen_ignores_output)
qed

lemma replies_ignore_output:
  "splitWindow_reply args out = splitWindow_reply args out'"
  "newWindow_reply args out = newWindow_reply args out'"
  "sendKeys_reply args out = sendKeys_reply args out'"
  "openNvim_reply args out = openNvim_reply args out'"
  "splitWindow_reply_index args out = splitWindow_reply_index args out'"
  "newWindow_reply_index args out = newWindow_reply_index args out'"
  "sendKeys_reply_index args out = sendKeys_reply_index args out'"
  "openNvim_reply_index args out = openNvim_reply_index args out'"
  by (simp_all add: splitWindow_reply_def newWindow_reply_def sendKeys_reply_def
      openNvim_reply_def splitWindow_reply_index_def newWindow_reply_index_def
      sendKeys_reply_index_def openNvim_reply_index_def)

lemma ops_ignore_output:
  "splitWindow run1 args = (cmds1, Inr res1) \<Longrightarrow> splitWindow run2 args = (cmds2, Inr res2)
     \<Longrightarrow> res1 = res2 \<and> cmds1 = cmds2"
  "newWindow run1 args = (cmds1, Inr res1) \<Longrightarrow> newWindow run2 args = (cmds2, Inr res2)
     \<Longrightarrow> res1 = res2 \<and> cmds1 = cmds2"
  "sendKeys run1 args = (cmds1, Inr res1) \<Longrightarrow> sendKeys run2 args = (cmds2, Inr res2)
     \<Longrightarrow> res1 = res2 \<and> cmds1 = cmds2"
  "openNvim run1 args = (cmds1, Inr res1) \<Longrightarrow> openNvim run2 args = (cmds2, Inr res2)
     \<Longrightarrow> res1 = res2 \<and> cmds1 = cmds2"
  "splitWindow_index run1 args = (cmds1, Inr res1)
     \<Longrightarrow> splitWindow_index run2 args = (cmds2, Inr res2)
     \<Longrightarrow> res1 = res2 \<and> cmds1 = cmds2"
  "newWindow_index run1 args = (cmds1, Inr res1) \<Longrightarrow> newWindow_index run2 args = (cmds2, Inr res2)
     \<Longrightarrow> res1 = res2 \<and> cmds1 = cmds2"
  "sendKeys_index run1 args = (cmds1, Inr res1) \<Longrightarrow> sendKeys_index run2 args = (cmds2, Inr res2)
     \<Longrightarrow> res1 = res2 \<and> cmds1 = cmds2"
  "openNvim_index run1 args = (cmds1, Inr res1) \<Longrightarrow> openNvim_index run2 args = (cmds2, Inr res2)
     \<Longrightarrow> res1 = res2 \<and> cmds1 = cmds2"
  unfolding splitWindow_def newWindow_def sendKeys_def openNvim_def
    splitWindow_index_def newWindow_index_def sendKeys_index_def openNvim_index_def
  by (erule (1) withArgs_ignores_output [rotated], rule replies_ignore_output)+

text \<open>
  Claim C10. For \<^verbatim>\<open>splitWindow\<close>, \<^verbatim>\<open>newWindow\<close>, \<^verbatim>\<open>sendKeys\<close> and \<^verbatim>\<open>openNvim\<close>, in either
  version: two runs on the same arguments that both end in a reply, against
  subprocesses that may print anything, run the same command and give the same reply.
  The captured output is not part of it.
\<close>

theorem mutating_reply_ignores_output:
  assumes "op \<in> {splitWindow, newWindow, sendKeys, openNvim,
                  splitWindow_index, newWindow_index, sendKeys_index, openNvim_index}"
    and "op run1 args = (cmds1, Inr res1)"
    and "op run2 args = (cmds2, Inr res2)"
  shows "res1 = res2 \<and> cmds1 = cmds2"
  using assms by (auto dest: ops_ignore_output)

theorem mutating_reply_ignores_output_witness:
  \<open>sendKeys \<in> {splitWindow, newWindow, sendKeys, openNvim,
                 splitWindow_index, newWindow_index, sendKeys_index, openNvim_index}
   \<and> sendKeys quietRun (Some [(''keys'', JStr ''make'')])
       = ([''tmux send-keys "make" Enter''], Inr (textResult ''Sent keys: make (with Enter)''))
   \<and> sendKeys loudRun (Some [(''keys'', JStr ''make'')])
       = ([''tmux send-keys "make" Enter''], Inr (textResult ''Sent keys: make (with Enter)''))
   \<and> quietRun ''tmux send-keys "make" Enter'' \<noteq> loudRun ''tmux send-keys "make" Enter''\<close>
proof -
  have m: "sendKeys \<in> {splitWindow, newWindow, sendKeys, openNvim,
                 splitWindow_index, newWindow_index, sendKeys_index, openNvim_index}"
    by simp
  have a: \<open>sendKeys quietRun (Some [(''keys'', JStr ''make'')])
       = ([''tmux send-keys "make" Enter''], Inr (textResult ''Sent keys: make (with Enter)''))\<close>
    by (simp add: sendKeys_def withArgs_def sendKeys_cmd_def sendKeys_reply_def execThen_def
        quietRun_def andThen_def appendIf_def get_def)
  obtain cmds res where b: "sendKeys loudRun (Some [(''keys'', JStr ''make'')]) = (cmds, Inr res)"
    by (simp add: sendKeys_def withArgs_def sendKeys_cmd_def sendKeys_reply_def execThen_def
        loudRun_def andThen_def appendIf_def get_def)
  from mutating_reply_ignores_output [OF m a b] b
  have c: \<open>sendKeys loudRun (Some [(''keys'', JStr ''make'')])
       = ([''tmux send-keys "make" Enter''], Inr (textResult ''Sent keys: make (with Enter)''))\<close>
    by simp
  have d: \<open>quietRun ''tmux send-keys "make" Enter'' \<noteq> loudRun ''tmux send-keys "make" Enter''\<close>
    by (simp add: quietRun_def loudRun_def)
  from m a c d show ?thesis by blast
qed

end
